theory Spec2Isabelle
  imports Complex_Main "HOL-Library.AList" "HOL-Library.Sublist"
begin

section \<open>Python strings\<close>

text \<open>
  A Python \<open>str\<close> is a sequence of Unicode code points. It is modelled as a list of
  natural numbers, one per code point, so that \<open>len\<close>, slicing and \<open>strip\<close> count
  what Python counts. ASCII literals are written \<open>str ''...''\<close>.
\<close>

type_synonym pystr = "nat list"

definition str :: "string \<Rightarrow> pystr" where
  "str cs = map of_char cs"

text \<open>The code points that \<open>str.strip()\<close> and \<open>str.split()\<close> treat as whitespace.\<close>

definition is_space :: "nat \<Rightarrow> bool" where
  "is_space c \<longleftrightarrow>
     (9 \<le> c \<and> c \<le> 13) \<or> (28 \<le> c \<and> c \<le> 32) \<or> c = 133 \<or> c = 160 \<or> c = 5760 \<or>
     (8192 \<le> c \<and> c \<le> 8202) \<or> c = 8232 \<or> c = 8233 \<or> c = 8239 \<or> c = 8287 \<or> c = 12288"

text \<open>\<open>s.strip(chars)\<close>, with the set of characters given as a predicate.\<close>

definition strip_by :: "(nat \<Rightarrow> bool) \<Rightarrow> pystr \<Rightarrow> pystr" where
  "strip_by p s = rev (dropWhile p (rev (dropWhile p s)))"

definition strip :: "pystr \<Rightarrow> pystr" where
  "strip s = strip_by is_space s"

text \<open>The two quote characters of \<open>strip("'\"")\<close>: apostrophe (39) and double quote (34).\<close>

definition is_quote :: "nat \<Rightarrow> bool" where
  "is_quote c \<longleftrightarrow> c = 39 \<or> c = 34"

definition strip_quotes :: "pystr \<Rightarrow> pystr" where
  "strip_quotes s = strip_by is_quote s"



section \<open>AdminManager (admin\_manager.py)\<close>

record admin_manager =
  admin_user_ids :: "pystr list"
  admin_channel_ids :: "pystr list"
  spl_query_enabled :: bool
  approval_required :: bool


definition is_admin :: "admin_manager \<Rightarrow> pystr \<Rightarrow> bool" where
  "is_admin am user_id =
     (let clean_user_id = strip_quotes (strip user_id)
      in clean_user_id \<in> set (admin_user_ids am))"

definition is_admin_channel :: "admin_manager \<Rightarrow> pystr \<Rightarrow> bool" where
  "is_admin_channel am channel_id \<longleftrightarrow> channel_id \<in> set (admin_channel_ids am)"

text \<open>The three reason texts; the last two start with U+274C and U+2705.\<close>

definition reason_disabled :: pystr where
  "reason_disabled = str ''SPL query execution is currently disabled''"

definition reason_restricted :: pystr where
  "reason_restricted = 10060 # str '' SPL queries are restricted to admins only''"

definition reason_granted :: pystr where
  "reason_granted = 9989 # str '' Admin access granted''"

text \<open>\<open>channel_id\<close> defaults to \<open>None\<close>, hence the option.\<close>

definition can_execute_spl :: "admin_manager \<Rightarrow> pystr \<Rightarrow> pystr option \<Rightarrow> bool \<times> pystr" where
  "can_execute_spl am user_id channel_id =
     (if \<not> spl_query_enabled am then (False, reason_disabled)
      else if \<not> is_admin am user_id then (False, reason_restricted)
      else (True, reason_granted))"

definition get_admin_list :: "admin_manager \<Rightarrow> pystr list" where
  "get_admin_list am = admin_user_ids am"




section \<open>Python values and exceptions\<close>

text \<open>
  The values that \<open>json.loads\<close> and \<open>resp.json()\<close> produce, which are also the values
  an audit entry holds. A \<open>dict\<close> keeps its keys in insertion order, so it is an
  association list. A finite \<open>float\<close> is represented by its exact value.
\<close>

datatype json =
    JNull
  | JBool bool
  | JInt int
  | JFloat rat
  | JStr pystr
  | JArr "json list"
  | JObj "(pystr \<times> json) list"

datatype py_error =
    KeyError
  | TypeError
  | AttributeError
  | IndexError
  | ValueError
  | JSONDecodeError
  | HTTPError
  | ConnectionError
  | RuntimeError pystr

text \<open>Truth value of a value, as tested by \<open>if x\<close>, \<open>not x\<close> and \<open>x or y\<close>.\<close>

fun truthy :: "json \<Rightarrow> bool" where
  "truthy JNull = False"
| "truthy (JBool b) = b"
| "truthy (JInt i) = (i \<noteq> 0)"
| "truthy (JFloat r) = (r \<noteq> 0)"
| "truthy (JStr s) = (s \<noteq> [])"
| "truthy (JArr xs) = (xs \<noteq> [])"
| "truthy (JObj kvs) = (kvs \<noteq> [])"

text \<open>\<open>x.get(key, default)\<close>: only a dict has the method.\<close>

fun dict_get :: "json \<Rightarrow> pystr \<Rightarrow> json \<Rightarrow> py_error + json" where
  "dict_get (JObj kvs) key dflt = Inr (case map_of kvs key of None \<Rightarrow> dflt | Some v \<Rightarrow> v)"
| "dict_get _ key dflt = Inl AttributeError"

text \<open>
  \<open>x[key]\<close> with a string key: a missing key of a dict is a \<open>KeyError\<close>; a list or a
  string wants integer indices and every other value is not subscriptable, both a
  \<open>TypeError\<close>.
\<close>

fun subscript :: "json \<Rightarrow> pystr \<Rightarrow> py_error + json" where
  "subscript (JObj kvs) key = (case map_of kvs key of None \<Rightarrow> Inl KeyError | Some v \<Rightarrow> Inr v)"
| "subscript _ key = Inl TypeError"

text \<open>\<open>x[key] = v\<close> on a dict: an existing key keeps its position, a new one goes last.\<close>

fun dict_set :: "json \<Rightarrow> pystr \<Rightarrow> json \<Rightarrow> py_error + json" where
  "dict_set (JObj kvs) key v = Inr (JObj (AList.update key v kvs))"
| "dict_set _ key v = Inl TypeError"

text \<open>\<open>xs[start:]\<close> for an integer \<open>start\<close>, negative ones counting from the end.\<close>

definition slice_from :: "'a list \<Rightarrow> int \<Rightarrow> 'a list" where
  "slice_from xs start =
     (let n = int (length xs);
          i = (if start < 0 then max (n + start) 0 else min start n)
      in drop (nat i) xs)"


section \<open>StructuredLogger (structured\_logger.py)\<close>

text \<open>
  The object holds the in-memory sequence \<open>logs\<close>. The durable store is the sequence of
  lines of the file \<open>log_file\<close>, passed explicitly. The encoder \<open>json.dumps\<close> and the
  decoder \<open>json.loads\<close> of the standard library are parameters (\<open>dumps\<close>, \<open>loads\<close>;
  \<open>None\<close> stands for \<open>JSONDecodeError\<close>), and \<open>writable\<close> says whether opening and
  writing a file succeeds. The text written to an export file is not modelled; what
  an export returns, raises and does to \<open>logs\<close> is.
\<close>

record structured_logger =
  logs :: "json list"




text \<open>
  The entry built by \<open>log_action\<close>. \<open>timestamp\<close> is \<open>datetime.now().isoformat()\<close>;
  \<open>changes\<close> and \<open>error\<close> default to \<open>None\<close>, and \<open>changes or {}\<close> turns an absent or
  empty mapping into the empty dict.
\<close>

definition log_entry ::
  "pystr \<Rightarrow> pystr \<Rightarrow> pystr \<Rightarrow> pystr \<Rightarrow> pystr \<Rightarrow> pystr \<Rightarrow> pystr \<Rightarrow> pystr \<Rightarrow>
   (pystr \<times> json) list option \<Rightarrow> pystr option \<Rightarrow> json" where
  "log_entry timestamp user_id user_name command channel_id channel_name action result
     changes error =
     JObj [(str ''timestamp'', JStr timestamp),
           (str ''user_id'', JStr user_id),
           (str ''user_name'', JStr user_name),
           (str ''command'', JStr command),
           (str ''channel_id'', JStr channel_id),
           (str ''channel_name'', JStr channel_name),
           (str ''action'', JStr action),
           (str ''result'', JStr result),
           (str ''changes'', JObj (case changes of None \<Rightarrow> [] | Some kvs \<Rightarrow> kvs)),
           (str ''error'', (case error of None \<Rightarrow> JNull | Some e \<Rightarrow> JStr e))]"

text \<open>
  \<open>log_action\<close> appends to the in-memory sequence first, then to the file; a failed
  write is reported and otherwise ignored. The second component is the durable store.
  The text that \<open>_print_readable\<close> then sends to the logger is not modelled; it reads
  the entry just built, whose timestamp contains a \<open>T\<close>, and does not raise.
\<close>

definition log_action ::
  "(json \<Rightarrow> pystr) \<Rightarrow> bool \<Rightarrow> pystr \<Rightarrow> pystr \<Rightarrow> pystr \<Rightarrow> pystr \<Rightarrow> pystr \<Rightarrow> pystr \<Rightarrow> pystr \<Rightarrow>
   pystr \<Rightarrow> (pystr \<times> json) list option \<Rightarrow> pystr option \<Rightarrow>
   structured_logger \<times> pystr list \<Rightarrow> structured_logger \<times> pystr list" where
  "log_action dumps writable timestamp user_id user_name command channel_id channel_name
     action result changes error world =
     (let st = fst world; store = snd world;
          entry = log_entry timestamp user_id user_name command channel_id channel_name
                    action result changes error
      in (st\<lparr>logs := logs st @ [entry]\<rparr>,
          if writable then store @ [dumps entry @ [10]] else store))"

definition export_json :: "bool \<Rightarrow> pystr \<Rightarrow> structured_logger \<Rightarrow> pystr option \<times> structured_logger" where
  "export_json writable output_file st =
     (if writable then (Some output_file, st) else (None, st))"

definition csv_fieldnames :: "pystr list" where
  "csv_fieldnames =
     [str ''timestamp'', str ''user_id'', str ''user_name'', str ''command'',
      str ''channel_id'', str ''channel_name'', str ''action'', str ''result'',
      str ''changes'', str ''error'']"

text \<open>
  \<open>writer.writerow(log)\<close> of a \<open>csv.DictWriter\<close>: a key outside the field names raises
  \<open>ValueError\<close>; a missing one is written as the empty string.
\<close>

fun writerow :: "json \<Rightarrow> py_error + unit" where
  "writerow (JObj kvs) =
     (if filter (\<lambda>k. k \<notin> set csv_fieldnames) (map fst kvs) = [] then Inr ()
      else Inl ValueError)"
| "writerow _ = Inl AttributeError"

text \<open>
  The loop of \<open>export_csv\<close>. Each entry is a shared object: the assignment to
  \<open>log['changes']\<close> changes the entry held by \<open>logs\<close>. The result is the exception that
  ended the loop, if any, and the sequence as the loop leaves it.
\<close>

fun export_csv_rows :: "(json \<Rightarrow> pystr) \<Rightarrow> json list \<Rightarrow> py_error option \<times> json list" where
  "export_csv_rows dumps [] = (None, [])"
| "export_csv_rows dumps (item # rest) =
     (case dict_get item (str ''changes'') (JObj []) of
        Inl e \<Rightarrow> (Some e, item # rest)
      | Inr c \<Rightarrow>
          (case dict_set item (str ''changes'') (JStr (dumps c)) of
             Inl e \<Rightarrow> (Some e, item # rest)
           | Inr item' \<Rightarrow>
               (case writerow item' of
                  Inl e \<Rightarrow> (Some e, item' # rest)
                | Inr _ \<Rightarrow>
                    (case export_csv_rows dumps rest of
                       (r, rest') \<Rightarrow> (r, item' # rest')))))"

definition export_csv ::
  "(json \<Rightarrow> pystr) \<Rightarrow> bool \<Rightarrow> pystr \<Rightarrow> structured_logger \<Rightarrow> pystr option \<times> structured_logger" where
  "export_csv dumps writable output_file st =
     (if logs st = [] then (None, st)
      else if \<not> writable then (None, st)
      else (case export_csv_rows dumps (logs st) of
              (None, logs') \<Rightarrow> (Some output_file, st\<lparr>logs := logs'\<rparr>)
            | (Some e, logs') \<Rightarrow> (None, st\<lparr>logs := logs'\<rparr>)))"

text \<open>
  The block of \<open>export_txt\<close> for one entry, reduced to the accesses that can raise, in
  the order of the source: \<open>entry['timestamp'].split('T')[1]\<close> needs a dict with a
  string under \<open>timestamp\<close> that contains a \<open>T\<close> (code point 84), and every other
  field is read with \<open>entry[...]\<close>.
\<close>

fun split_T_1 :: "json \<Rightarrow> py_error + unit" where
  "split_T_1 (JStr s) = (if 84 \<in> set s then Inr () else Inl IndexError)"
| "split_T_1 _ = Inl AttributeError"

fun read_fields :: "json \<Rightarrow> pystr list \<Rightarrow> py_error + unit" where
  "read_fields entry [] = Inr ()"
| "read_fields entry (k # ks) =
     (case subscript entry k of Inl e \<Rightarrow> Inl e | Inr _ \<Rightarrow> read_fields entry ks)"

definition export_txt_entry :: "json \<Rightarrow> py_error + unit" where
  "export_txt_entry entry =
     (case subscript entry (str ''timestamp'') of
        Inl e \<Rightarrow> Inl e
      | Inr ts \<Rightarrow>
          (case split_T_1 ts of
             Inl e \<Rightarrow> Inl e
           | Inr _ \<Rightarrow>
               read_fields entry
                 [str ''user_name'', str ''user_id'', str ''channel_name'', str ''channel_id'',
                  str ''command'', str ''action'', str ''result'', str ''changes'',
                  str ''error'']))"

fun export_txt_entries :: "json list \<Rightarrow> py_error + unit" where
  "export_txt_entries [] = Inr ()"
| "export_txt_entries (entry # rest) =
     (case export_txt_entry entry of Inl e \<Rightarrow> Inl e | Inr _ \<Rightarrow> export_txt_entries rest)"

text \<open>The whole body of \<open>export_txt\<close> is inside \<open>try\<close>: every exception ends in \<open>None\<close>.\<close>

definition export_txt :: "bool \<Rightarrow> pystr \<Rightarrow> structured_logger \<Rightarrow> pystr option \<times> structured_logger" where
  "export_txt writable output_file st =
     (if \<not> writable then (None, st)
      else (case export_txt_entries (logs st) of
              Inl e \<Rightarrow> (None, st)
            | Inr _ \<Rightarrow> (Some output_file, st)))"




text \<open>\<open>self.logs[-limit:]\<close>.\<close>

definition get_recent_logs :: "structured_logger \<Rightarrow> int \<Rightarrow> json list" where
  "get_recent_logs st limit = slice_from (logs st) (- limit)"


subsection \<open>A decoder for a fragment of JSON\<close>

text \<open>
  \<open>json.loads\<close> on the fragment of JSON made of \<open>null\<close>, \<open>true\<close>, \<open>false\<close>, integers,
  strings without escapes, arrays and objects, with the four whitespace characters of
  JSON between tokens. On a text of the fragment it gives the value \<open>json.loads\<close>
  gives; a text outside the fragment (a fraction or exponent, an escape) is not
  decoded here. It is used for concrete store contents only; the statements about
  loading hold for every decoder.
\<close>

definition is_json_ws :: "nat \<Rightarrow> bool" where
  "is_json_ws c \<longleftrightarrow> c = 32 \<or> c = 9 \<or> c = 10 \<or> c = 13"

definition skip_ws :: "pystr \<Rightarrow> pystr" where
  "skip_ws s = dropWhile is_json_ws s"

definition is_digit :: "nat \<Rightarrow> bool" where
  "is_digit c \<longleftrightarrow> 48 \<le> c \<and> c \<le> 57"

definition digits_value :: "pystr \<Rightarrow> int" where
  "digits_value ds = foldl (\<lambda>a c. 10 * a + (int c - 48)) 0 ds"

text \<open>After the integer part, a \<open>.\<close>, \<open>e\<close> or \<open>E\<close> would start a float.\<close>

definition finish_int :: "int \<Rightarrow> pystr \<Rightarrow> (json \<times> pystr) option" where
  "finish_int i rest =
     (case rest of
        [] \<Rightarrow> Some (JInt i, [])
      | c # cs \<Rightarrow> if c = 46 \<or> c = 101 \<or> c = 69 then None else Some (JInt i, rest))"

definition parse_unsigned :: "bool \<Rightarrow> pystr \<Rightarrow> (json \<times> pystr) option" where
  "parse_unsigned neg s =
     (case s of
        [] \<Rightarrow> None
      | d # ds \<Rightarrow>
          if d = 48 then finish_int 0 ds
          else if 49 \<le> d \<and> d \<le> 57
          then finish_int
                 ((if neg then - 1 else 1) * digits_value (d # takeWhile is_digit ds))
                 (dropWhile is_digit ds)
          else None)"

definition parse_number :: "pystr \<Rightarrow> (json \<times> pystr) option" where
  "parse_number s =
     (case s of
        [] \<Rightarrow> None
      | c # r \<Rightarrow> if c = 45 then parse_unsigned True r else parse_unsigned False s)"

text \<open>The characters of a string up to the closing quote (34); no backslash (92).\<close>

definition is_plain_char :: "nat \<Rightarrow> bool" where
  "is_plain_char c \<longleftrightarrow> c \<noteq> 34 \<and> c \<noteq> 92 \<and> 32 \<le> c"

definition parse_string_body :: "pystr \<Rightarrow> (pystr \<times> pystr) option" where
  "parse_string_body s =
     (case dropWhile is_plain_char s of
        c # r \<Rightarrow> if c = 34 then Some (takeWhile is_plain_char s, r) else None
      | [] \<Rightarrow> None)"

definition parse_literal :: "pystr \<Rightarrow> (json \<times> pystr) option" where
  "parse_literal s =
     (if prefix (str ''null'') s then Some (JNull, drop 4 s)
      else if prefix (str ''true'') s then Some (JBool True, drop 4 s)
      else if prefix (str ''false'') s then Some (JBool False, drop 5 s)
      else parse_number s)"

text \<open>
  Values, the elements of an array after \<open>[\<close> and the members of an object after
  \<open>{\<close>. The first argument bounds the depth of the calls. A repeated key keeps its
  first position and takes the last value, as in a \<open>dict\<close>.
\<close>

fun parse_value :: "nat \<Rightarrow> pystr \<Rightarrow> (json \<times> pystr) option"
  and parse_elems :: "nat \<Rightarrow> json list \<Rightarrow> pystr \<Rightarrow> (json \<times> pystr) option"
  and parse_members :: "nat \<Rightarrow> (pystr \<times> json) list \<Rightarrow> pystr \<Rightarrow> (json \<times> pystr) option"
where
  "parse_value 0 s = None"
| "parse_value (Suc n) s =
     (case skip_ws s of
        [] \<Rightarrow> None
      | c # cs \<Rightarrow>
          if c = 34 then
            (case parse_string_body cs of
               None \<Rightarrow> None
             | Some (body, r) \<Rightarrow> Some (JStr body, r))
          else if c = 91 then
            (case skip_ws cs of
               [] \<Rightarrow> None
             | d # ds \<Rightarrow> if d = 93 then Some (JArr [], ds) else parse_elems n [] cs)
          else if c = 123 then
            (case skip_ws cs of
               [] \<Rightarrow> None
             | d # ds \<Rightarrow> if d = 125 then Some (JObj [], ds) else parse_members n [] cs)
          else parse_literal (c # cs))"
| "parse_elems 0 acc s = None"
| "parse_elems (Suc n) acc s =
     (case parse_value n s of
        None \<Rightarrow> None
      | Some (v, r) \<Rightarrow>
          (case skip_ws r of
             [] \<Rightarrow> None
           | c # cs \<Rightarrow>
               if c = 44 then parse_elems n (acc @ [v]) cs
               else if c = 93 then Some (JArr (acc @ [v]), cs)
               else None))"
| "parse_members 0 acc s = None"
| "parse_members (Suc n) acc s =
     (case skip_ws s of
        [] \<Rightarrow> None
      | q # qs \<Rightarrow>
          if q \<noteq> 34 then None
          else
            (case parse_string_body qs of
               None \<Rightarrow> None
             | Some (key, r) \<Rightarrow>
                 (case skip_ws r of
                    [] \<Rightarrow> None
                  | c # cs \<Rightarrow>
                      if c \<noteq> 58 then None
                      else
                        (case parse_value n cs of
                           None \<Rightarrow> None
                         | Some (v, r') \<Rightarrow>
                             (case skip_ws r' of
                                [] \<Rightarrow> None
                              | e # es \<Rightarrow>
                                  if e = 44 then parse_members n (AList.update key v acc) es
                                  else if e = 125 then Some (JObj (AList.update key v acc), es)
                                  else None)))))"



section \<open>Result formatter (slack\_handlers.py)\<close>

text \<open>Decimal digits of a number, as an f-string renders an \<open>int\<close>.\<close>

fun show_nat :: "nat \<Rightarrow> pystr" where
  "show_nat n = (if n < 10 then [48 + n] else show_nat (n div 10) @ [48 + n mod 10])"

definition show_int :: "int \<Rightarrow> pystr" where
  "show_int i = (if i < 0 then 45 # show_nat (nat (- i)) else show_nat (nat i))"

text \<open>\<open>sep.join(parts)\<close>.\<close>

fun join :: "pystr \<Rightarrow> pystr list \<Rightarrow> pystr" where
  "join sep [] = []"
| "join sep [x] = x"
| "join sep (x # y # ys) = x @ sep @ join sep (y # ys)"

text \<open>
  A value inside an f-string: a string is inserted as it is, any other value through
  \<open>str()\<close>, which is a parameter (\<open>str_of\<close>).
\<close>

definition fmt :: "(json \<Rightarrow> pystr) \<Rightarrow> json \<Rightarrow> pystr" where
  "fmt str_of v = (case v of JStr s \<Rightarrow> s | _ \<Rightarrow> str_of v)"

definition keys_priority :: "pystr list" where
  "keys_priority =
     [str ''_time'', str ''host'', str ''source'', str ''sourcetype'', str ''user'',
      str ''src'', str ''dest'', str ''count'']"

text \<open>A row is a dict: its keys, in the row's own order, are \<open>map fst row\<close>.\<close>

definition show_keys :: "(pystr \<times> json) list \<Rightarrow> pystr list" where
  "show_keys row =
     (let ks = take 4 (filter (\<lambda>k. k \<in> set (map fst row)) keys_priority)
      in if ks = [] then take 4 (map fst row) else ks)"

definition snippet :: "(json \<Rightarrow> pystr) \<Rightarrow> (pystr \<times> json) list \<Rightarrow> pystr" where
  "snippet str_of row =
     join (str '', '')
       (map (\<lambda>k. k @ str ''='' @ fmt str_of (case map_of row k of None \<Rightarrow> JNull | Some v \<Rightarrow> v))
          (show_keys row))"

text \<open>The list \<open>lines\<close> of \<open>format_results\<close> when the loop has ended.\<close>

definition result_lines ::
  "(json \<Rightarrow> pystr) \<Rightarrow> pystr \<Rightarrow> pystr \<Rightarrow> (pystr \<times> json) list list \<Rightarrow> pystr list" where
  "result_lines str_of saved_search_name sid results =
     [[9989] @ str '' *'' @ saved_search_name @ str ''* results (top '' @
        show_nat (length results) @ str ''):'',
      [8226] @ str '' SID: `'' @ sid @ str ''`'',
      []] @
     map (\<lambda>(i, row). show_nat i @ str ''. '' @ snippet str_of row)
       (zip [1 ..< Suc (length results)] results)"

definition format_results ::
  "(json \<Rightarrow> pystr) \<Rightarrow> pystr \<Rightarrow> pystr \<Rightarrow> (pystr \<times> json) list list \<Rightarrow> pystr" where
  "format_results str_of saved_search_name sid results =
     (if results = []
      then [9989] @ str '' *'' @ saved_search_name @ str ''* ran successfully.'' @ [10] @
           [8226] @ str '' SID: `'' @ sid @ str ''`'' @ [10] @
           [8226] @ str '' No results found.''
      else join [10] (result_lines str_of saved_search_name sid results))"

text \<open>
  The selection as the specification words it, with the priority list it gives
  (\<open>time\<close> first), for comparison with \<open>show_keys\<close>.
\<close>

definition spec_keys_priority :: "pystr list" where
  "spec_keys_priority =
     [str ''time'', str ''host'', str ''source'', str ''sourcetype'', str ''user'',
      str ''src'', str ''dest'', str ''count'']"

definition spec_show_keys :: "(pystr \<times> json) list \<Rightarrow> pystr list" where
  "spec_show_keys row =
     (if list_ex (\<lambda>k. k \<in> set (map fst row)) spec_keys_priority
      then take 4 (filter (\<lambda>k. k \<in> set (map fst row)) spec_keys_priority)
      else take 4 (map fst row))"


section \<open>SplunkClient (splunk\_client.py)\<close>

text \<open>
  The HTTP library is the boundary of the model. A request is the record of the
  arguments of \<open>requests.get\<close> or \<open>requests.post\<close>. A response gives what the code
  reads from it: \<open>status_code\<close>, \<open>text\<close> (here \<open>resp_text\<close>), the value of \<open>resp.json()\<close> (\<open>None\<close> when the
  body does not decode) and the time the exchange took.
\<close>

record request =
  req_method :: pystr
  req_url :: pystr
  req_headers :: "(pystr \<times> pystr) list"
  req_params :: "(pystr \<times> json) list"
  req_data :: "(pystr \<times> json) list"
  req_verify :: bool
  req_timeout :: int

record response =
  status_code :: int
  resp_text :: pystr
  json_body :: "json option"
  elapsed :: rat

text \<open>
  The outside world as the client sees it: the reading of \<open>time.time()\<close> and the
  history of what the process did to it, every HTTP exchange with its outcome and
  every \<open>time.sleep\<close>. The backend answers a request knowing the whole history, so
  that the n-th poll may differ from the first; \<open>Inl\<close> is an exception raised by the
  library (no connection, timeout).
\<close>

datatype event = Http request "py_error + response" | Sleep rat

record world =
  now :: rat
  trace :: "event list"

type_synonym backend = "event list \<Rightarrow> request \<Rightarrow> py_error + response"

definition http :: "backend \<Rightarrow> request \<Rightarrow> world \<Rightarrow> (py_error + response) \<times> world" where
  "http be req w =
     (let r = be (trace w) req
      in (r, w\<lparr>now := now w + (case r of Inl e \<Rightarrow> 0 | Inr resp \<Rightarrow> elapsed resp),
               trace := trace w @ [Http req r]\<rparr>))"

text \<open>\<open>time.sleep(d)\<close> raises \<open>ValueError\<close> for a negative duration.\<close>

definition time_sleep :: "rat \<Rightarrow> world \<Rightarrow> py_error + world" where
  "time_sleep d w =
     (if d < 0 then Inl ValueError
      else Inr (w\<lparr>now := now w + d, trace := trace w @ [Sleep d]\<rparr>))"

record splunk_client =
  base_url :: pystr
  token :: pystr
  verify_tls :: bool
  timeout :: int

definition headers :: "splunk_client \<Rightarrow> (pystr \<times> pystr) list" where
  "headers c =
     [(str ''Authorization'', token c),
      (str ''Content-Type'', str ''application/x-www-form-urlencoded''),
      (str ''Accept'', str ''application/json'')]"

text \<open>\<open>resp.raise_for_status()\<close> raises \<open>HTTPError\<close> for a status from 400 to 599.\<close>

definition raise_for_status :: "response \<Rightarrow> py_error + unit" where
  "raise_for_status resp =
     (if 400 \<le> status_code resp \<and> status_code resp < 600 then Inl HTTPError else Inr ())"

definition resp_json :: "response \<Rightarrow> py_error + json" where
  "resp_json resp = (case json_body resp of None \<Rightarrow> Inl JSONDecodeError | Some v \<Rightarrow> Inr v)"

text \<open>
  \<open>x[0]\<close>: the first element of a list, the first character of a string; a dict decoded
  from JSON has string keys only, so the key 0 is missing.
\<close>

fun index0 :: "json \<Rightarrow> py_error + json" where
  "index0 (JArr (x # xs)) = Inr x"
| "index0 (JArr []) = Inl IndexError"
| "index0 (JStr (c # cs)) = Inr (JStr [c])"
| "index0 (JStr []) = Inl IndexError"
| "index0 (JObj kvs) = Inl KeyError"
| "index0 _ = Inl TypeError"

text \<open>
  What \<open>dispatch_saved_search\<close> and \<open>run_spl_query\<close> do with the response; the two
  bodies are the same statements and differ in the text of the first message
  (\<open>label\<close>). \<open>str_of\<close> is \<open>str()\<close> on the payload.
\<close>

definition nested_sid :: "json \<Rightarrow> py_error + json" where
  "nested_sid payload =
     (case subscript payload (str ''entry'') of
        Inl e \<Rightarrow> Inl e
      | Inr entries \<Rightarrow>
          (case index0 entries of
             Inl e \<Rightarrow> Inl e
           | Inr entry \<Rightarrow>
               (case dict_get entry (str ''content'') (JObj []) of
                  Inl e \<Rightarrow> Inl e
                | Inr content \<Rightarrow> dict_get content (str ''sid'') JNull)))"

definition has_key :: "json \<Rightarrow> pystr \<Rightarrow> bool" where
  "has_key payload key = (case payload of JObj kvs \<Rightarrow> key \<in> set (map fst kvs) | _ \<Rightarrow> False)"

definition job_sid :: "pystr \<Rightarrow> (json \<Rightarrow> pystr) \<Rightarrow> response \<Rightarrow> py_error + json" where
  "job_sid label str_of resp =
     (if status_code resp \<ge> 400
      then Inl (RuntimeError
                  (label @ str '' ('' @ show_int (status_code resp) @ str ''): '' @ resp_text resp))
      else
        (case resp_json resp of
           Inl e \<Rightarrow> Inl e
         | Inr payload \<Rightarrow>
             (case dict_get payload (str ''sid'') JNull of
                Inl e \<Rightarrow> Inl e
              | Inr sid0 \<Rightarrow>
                  (case (if \<not> truthy sid0 \<and> has_key payload (str ''entry'') \<and>
                            truthy (case subscript payload (str ''entry'') of
                                      Inl e \<Rightarrow> JNull | Inr v \<Rightarrow> v)
                         then nested_sid payload else Inr sid0) of
                     Inl e \<Rightarrow> Inl e
                   | Inr sid \<Rightarrow>
                       (if \<not> truthy sid
                        then Inl (RuntimeError
                                    (str ''Could not get SID from Splunk response: '' @
                                     str_of payload))
                        else Inr sid)))))"

definition post_job :: "splunk_client \<Rightarrow> json \<Rightarrow> pystr \<Rightarrow> pystr \<Rightarrow> request" where
  "post_job c search earliest_time latest_time =
     \<lparr>req_method = str ''POST'',
      req_url = base_url c @ str ''/services/search/jobs'',
      req_headers = headers c,
      req_params = [(str ''output_mode'', JStr (str ''json''))],
      req_data = [(str ''search'', search),
                  (str ''earliest_time'', JStr earliest_time),
                  (str ''latest_time'', JStr latest_time),
                  (str ''exec_mode'', JStr (str ''normal''))],
      req_verify = verify_tls c,
      req_timeout = timeout c\<rparr>"

definition dispatch_saved_search ::
  "backend \<Rightarrow> (json \<Rightarrow> pystr) \<Rightarrow> splunk_client \<Rightarrow> pystr \<Rightarrow> pystr \<Rightarrow> pystr \<Rightarrow> world \<Rightarrow>
   (py_error + json) \<times> world" where
  "dispatch_saved_search be str_of c saved_search_name earliest_time latest_time w =
     (case http be
             (post_job c (JStr (str ''| savedsearch \"'' @ saved_search_name @ str ''\"''))
                earliest_time latest_time) w of
        (Inl e, w') \<Rightarrow> (Inl e, w')
      | (Inr resp, w') \<Rightarrow> (job_sid (str ''Splunk job create failed'') str_of resp, w'))"

definition run_spl_query ::
  "backend \<Rightarrow> (json \<Rightarrow> pystr) \<Rightarrow> splunk_client \<Rightarrow> pystr \<Rightarrow> pystr \<Rightarrow> pystr \<Rightarrow> world \<Rightarrow>
   (py_error + json) \<times> world" where
  "run_spl_query be str_of c spl_query earliest_time latest_time w =
     (case http be (post_job c (JStr spl_query) earliest_time latest_time) w of
        (Inl e, w') \<Rightarrow> (Inl e, w')
      | (Inr resp, w') \<Rightarrow> (job_sid (str ''Splunk query failed'') str_of resp, w'))"

text \<open>\<open>is_done in (True, "1", 1)\<close>: equality with one of the three; 1.0 equals 1.\<close>

definition is_done_value :: "json \<Rightarrow> bool" where
  "is_done_value v \<longleftrightarrow> v = JBool True \<or> v = JInt 1 \<or> v = JFloat 1 \<or> v = JStr (str ''1'')"

text \<open>One pass through the body of the polling loop, from the response to the test.\<close>

definition poll_is_done :: "response \<Rightarrow> py_error + bool" where
  "poll_is_done resp =
     (case raise_for_status resp of
        Inl e \<Rightarrow> Inl e
      | Inr _ \<Rightarrow>
     (case resp_json resp of
        Inl e \<Rightarrow> Inl e
      | Inr data \<Rightarrow>
     (case dict_get data (str ''entry'') JNull of
        Inl e \<Rightarrow> Inl e
      | Inr entries \<Rightarrow>
     (case index0 (if truthy entries then entries else JArr [JObj []]) of
        Inl e \<Rightarrow> Inl e
      | Inr entry \<Rightarrow>
     (case dict_get entry (str ''content'') (JObj []) of
        Inl e \<Rightarrow> Inl e
      | Inr content \<Rightarrow>
     (case dict_get content (str ''isDone'') JNull of
        Inl e \<Rightarrow> Inl e
      | Inr is_done \<Rightarrow> Inr (is_done_value is_done)))))))"

definition poll_request :: "(json \<Rightarrow> pystr) \<Rightarrow> splunk_client \<Rightarrow> json \<Rightarrow> request" where
  "poll_request str_of c sid =
     \<lparr>req_method = str ''GET'',
      req_url = base_url c @ str ''/services/search/jobs/'' @ fmt str_of sid,
      req_headers = headers c,
      req_params = [(str ''output_mode'', JStr (str ''json''))],
      req_data = [],
      req_verify = verify_tls c,
      req_timeout = timeout c\<rparr>"

text \<open>
  The \<open>while\<close> loop of \<open>wait_for_job\<close>. Nothing in the code bounds the number of
  rounds: the loop ends when the clock has advanced far enough, so it is a partial
  function, and \<open>None\<close> is a run that never returns.
\<close>

partial_function (option) wait_loop ::
  "backend \<Rightarrow> request \<Rightarrow> rat \<Rightarrow> rat \<Rightarrow> rat \<Rightarrow> world \<Rightarrow> ((py_error + bool) \<times> world) option" where
  "wait_loop be req start max_wait_sec poll_interval_sec w =
     (if now w - start < max_wait_sec
      then
        (case http be req w of
           (Inl e, w1) \<Rightarrow> Some (Inl e, w1)
         | (Inr resp, w1) \<Rightarrow>
             (case poll_is_done resp of
                Inl e \<Rightarrow> Some (Inl e, w1)
              | Inr is_done \<Rightarrow>
                  if is_done then Some (Inr True, w1)
                  else
                    (case time_sleep poll_interval_sec w1 of
                       Inl e \<Rightarrow> Some (Inl e, w1)
                     | Inr w2 \<Rightarrow> wait_loop be req start max_wait_sec poll_interval_sec w2)))
      else Some (Inr False, w))"

declare wait_loop.simps [code]

definition wait_for_job ::
  "backend \<Rightarrow> (json \<Rightarrow> pystr) \<Rightarrow> splunk_client \<Rightarrow> json \<Rightarrow> int \<Rightarrow> rat \<Rightarrow> world \<Rightarrow>
   ((py_error + bool) \<times> world) option" where
  "wait_for_job be str_of c sid max_wait_sec poll_interval_sec w =
     wait_loop be (poll_request str_of c sid) (now w) (of_int max_wait_sec) poll_interval_sec w"

text \<open>\<open>get_results\<close>: \<open>payload.get("results", [])\<close> after \<open>raise_for_status\<close>.\<close>

definition get_results ::
  "backend \<Rightarrow> (json \<Rightarrow> pystr) \<Rightarrow> splunk_client \<Rightarrow> json \<Rightarrow> int \<Rightarrow> world \<Rightarrow>
   (py_error + json) \<times> world" where
  "get_results be str_of c sid count w =
     (case http be
             \<lparr>req_method = str ''GET'',
              req_url = base_url c @ str ''/services/search/jobs/'' @ fmt str_of sid @
                        str ''/results'',
              req_headers = headers c,
              req_params = [(str ''output_mode'', JStr (str ''json'')), (str ''count'', JInt count)],
              req_data = [],
              req_verify = verify_tls c,
              req_timeout = timeout c\<rparr> w of
        (Inl e, w') \<Rightarrow> (Inl e, w')
      | (Inr resp, w') \<Rightarrow>
          (case raise_for_status resp of
             Inl e \<Rightarrow> (Inl e, w')
           | Inr _ \<Rightarrow>
               (case resp_json resp of
                  Inl e \<Rightarrow> (Inl e, w')
                | Inr payload \<Rightarrow> (dict_get payload (str ''results'') (JArr []), w'))))"









text \<open>
  A job id in one of the two shapes, as the specification words it: a top-level
  \<open>sid\<close> field, or the \<open>sid\<close> inside the content of the first entry.
\<close>

definition spec_nested_sid :: "(pystr \<times> json) list \<Rightarrow> json option" where
  "spec_nested_sid kvs =
     (case map_of kvs (str ''entry'') of
        Some (JArr (JObj entry # rest)) \<Rightarrow>
          (case map_of entry (str ''content'') of
             Some (JObj content) \<Rightarrow>
               (case map_of content (str ''sid'') of
                  Some v \<Rightarrow> if truthy v then Some v else None
                | None \<Rightarrow> None)
           | _ \<Rightarrow> None)
      | _ \<Rightarrow> None)"

definition spec_sid :: "json option \<Rightarrow> json option" where
  "spec_sid body =
     (case body of
        Some (JObj kvs) \<Rightarrow>
          (case map_of kvs (str ''sid'') of
             Some v \<Rightarrow> if truthy v then Some v else spec_nested_sid kvs
           | None \<Rightarrow> spec_nested_sid kvs)
      | _ \<Rightarrow> None)"


section \<open>The raw-query command (app.py)\<close>

text \<open>\<open>s.replace(old, "")\<close> for a non-empty \<open>old\<close>: every occurrence, left to right.\<close>

function remove_all :: "pystr \<Rightarrow> pystr \<Rightarrow> pystr" where
  "remove_all old [] = []"
| "remove_all old (c # cs) =
     (if old \<noteq> [] \<and> prefix old (c # cs)
      then remove_all old (drop (length old) (c # cs))
      else c # remove_all old cs)"
  by pat_completeness auto
termination
  by (relation "measure (\<lambda>(old, s). length s)") auto

text \<open>
  \<open>AdminManager.audit_log\<close> builds an entry, writes one line about it with
  \<open>logger.info\<close> and returns the entry. It holds no sequence and does not touch the
  \<open>StructuredLogger\<close>. The line is represented by the entry it reports.
\<close>

definition audit_log :: "pystr \<Rightarrow> pystr \<Rightarrow> pystr \<Rightarrow> json \<Rightarrow> json" where
  "audit_log timestamp event_type user_id details =
     JObj [(str ''timestamp'', JStr timestamp),
           (str ''event_type'', JStr event_type),
           (str ''user_id'', JStr user_id),
           (str ''details'', details)]"

text \<open>
  The state of the process that the handler can reach: the global \<open>admin_manager\<close>, the
  global \<open>audit_log\<close> (the \<open>StructuredLogger\<close>, here \<open>trail\<close>), the lines written to the
  operational logger by \<open>AdminManager.audit_log\<close>, the messages sent with \<open>say\<close>, and the
  outside world of the Splunk client.
\<close>

record bot =
  admin :: admin_manager
  trail :: structured_logger
  logger_lines :: "json list"
  said :: "pystr list"
  net :: world

text \<open>The message is a dict read with \<open>message.get(key, "")\<close>.\<close>

record message =
  msg_user :: "pystr option"
  msg_channel :: "pystr option"
  msg_text :: "pystr option"

definition get_or_empty :: "pystr option \<Rightarrow> pystr" where
  "get_or_empty v = (case v of None \<Rightarrow> [] | Some s \<Rightarrow> s)"

definition say :: "pystr \<Rightarrow> bot \<Rightarrow> bot" where
  "say msg b = b\<lparr>said := said b @ [msg]\<rparr>"

text \<open>A call of \<open>admin_manager.audit_log\<close> whose result is dropped, as in the handler.\<close>

definition log_event :: "(rat \<Rightarrow> pystr) \<Rightarrow> pystr \<Rightarrow> pystr \<Rightarrow> json \<Rightarrow> bot \<Rightarrow> bot" where
  "log_event isoformat event_type user_id details b =
     b\<lparr>logger_lines :=
         logger_lines b @ [audit_log (isoformat (now (net b))) event_type user_id details]\<rparr>"

text \<open>\<open>str(e)\<close>: the message of a \<open>RuntimeError\<close>; the library's text otherwise.\<close>

definition exc_text :: "(py_error \<Rightarrow> pystr) \<Rightarrow> py_error \<Rightarrow> pystr" where
  "exc_text str_exc e = (case e of RuntimeError m \<Rightarrow> m | _ \<Rightarrow> str_exc e)"

text \<open>The \<open>except Exception\<close> branch.\<close>

definition on_error ::
  "(py_error \<Rightarrow> pystr) \<Rightarrow> (rat \<Rightarrow> pystr) \<Rightarrow> pystr \<Rightarrow> pystr \<Rightarrow> py_error \<Rightarrow> bot \<Rightarrow> bot" where
  "on_error str_exc isoformat user_id channel_id e b =
     log_event isoformat (str ''ERROR_SPL_QUERY'') user_id
       (JObj [(str ''error'', JStr (exc_text str_exc e)), (str ''channel'', JStr channel_id)])
       (say ([10060] @ str '' Error running SPL query: `'' @ exc_text str_exc e @ str ''`'') b)"

text \<open>
  \<open>handle_splunk_query\<close>. The parameters are the backend, \<open>str()\<close> on values and on
  exceptions, \<open>isoformat\<close> of the clock, \<open>RESULT_LIMIT\<close> and the global client. The
  result is \<open>None\<close> when the wait never returns.
\<close>

definition handle_splunk_query ::
  "backend \<Rightarrow> (json \<Rightarrow> pystr) \<Rightarrow> (py_error \<Rightarrow> pystr) \<Rightarrow> (rat \<Rightarrow> pystr) \<Rightarrow> int \<Rightarrow>
   splunk_client \<Rightarrow> message \<Rightarrow> bot \<Rightarrow> bot option" where
  "handle_splunk_query be str_of str_exc isoformat result_limit c message b =
     (let user_id = get_or_empty (msg_user message);
          channel_id = get_or_empty (msg_channel message);
          txt = strip (remove_all (str ''!splunk-query'') (get_or_empty (msg_text message)));
          allowed = can_execute_spl (admin b) user_id (Some channel_id);
          is_allowed = fst allowed;
          reason = snd allowed
      in
        if \<not> is_allowed
        then Some (log_event isoformat (str ''DENIED_SPL_QUERY'') user_id
                     (JObj [(str ''reason'', JStr reason),
                            (str ''channel'', JStr channel_id),
                            (str ''query_preview'', JStr (take 50 txt))])
                     (say reason b))
        else if txt = []
        then Some (say (str ''*Usage:* `!splunk-query \"index=_internal | head 5\"`'') b)
        else
          (let b1 = say ([9203] @ str '' Running SPL query...'')
                      (log_event isoformat (str ''EXECUTED_SPL_QUERY'') user_id
                         (JObj [(str ''channel'', JStr channel_id),
                                (str ''query_preview'', JStr (take 100 txt))]) b)
           in
             (case run_spl_query be str_of c txt (str ''-24h'') (str ''now'') (net b1) of
                (Inl e, n1) \<Rightarrow>
                  Some (on_error str_exc isoformat user_id channel_id e (b1\<lparr>net := n1\<rparr>))
              | (Inr sid, n1) \<Rightarrow>
                  (case wait_for_job be str_of c sid 35 (3 / 2) n1 of
                     None \<Rightarrow> None
                   | Some (Inl e, n2) \<Rightarrow>
                       Some (on_error str_exc isoformat user_id channel_id e (b1\<lparr>net := n2\<rparr>))
                   | Some (Inr finished, n2) \<Rightarrow>
                       if \<not> finished
                       then Some (say ([9888, 65039] @
                                       str '' Query started but did not finish in time.'' @ [10] @
                                       [8226] @ str '' SID: `'' @ fmt str_of sid @ str ''`'')
                                    (b1\<lparr>net := n2\<rparr>))
                       else
                         (case get_results be str_of c sid result_limit n2 of
                            (Inl e, n3) \<Rightarrow>
                              Some (on_error str_exc isoformat user_id channel_id e
                                      (b1\<lparr>net := n3\<rparr>))
                          | (Inr results, n3) \<Rightarrow>
                              Some (say (str ''*SPL Query Results* (SID: `'' @ fmt str_of sid @
                                         str ''`)'' @ [10] @ str ''```'' @ fmt str_of results @
                                         str ''```'')
                                      (b1\<lparr>net := n3\<rparr>)))))))"


section \<open>Authorization policy\<close>

lemma reasons_distinct:
  "reason_disabled \<noteq> reason_restricted" "reason_disabled \<noteq> reason_granted"
  "reason_restricted \<noteq> reason_granted"
  by (simp_all add: reason_disabled_def reason_restricted_def reason_granted_def str_def)

text \<open>
  C3. \<open>can_execute_spl\<close> answers (False, disabled reason) whenever the feature flag is
  off, whatever the admin status; (False, restricted reason) whenever the flag is on and
  the caller is not an admin; and (True, granted reason) exactly when the flag is on and
  the caller is an admin.
\<close>

theorem can_execute_spl_decision:
  "(\<not> spl_query_enabled am \<longrightarrow> can_execute_spl am u c = (False, reason_disabled)) \<and>
   (spl_query_enabled am \<and> \<not> is_admin am u \<longrightarrow>
      can_execute_spl am u c = (False, reason_restricted)) \<and>
   (can_execute_spl am u c = (True, reason_granted) \<longleftrightarrow> spl_query_enabled am \<and> is_admin am u) \<and>
   (fst (can_execute_spl am u c) \<longleftrightarrow> spl_query_enabled am \<and> is_admin am u)"
  by (simp add: can_execute_spl_def)

theorem can_execute_spl_decision_witness:
  "can_execute_spl \<lparr>admin_user_ids = [str ''U1''], admin_channel_ids = [],
       spl_query_enabled = False, approval_required = False\<rparr> (str ''U1'') None
     = (False, reason_disabled) \<and>
   can_execute_spl \<lparr>admin_user_ids = [str ''U1''], admin_channel_ids = [],
       spl_query_enabled = True, approval_required = False\<rparr> (str ''U2'') None
     = (False, reason_restricted) \<and>
   can_execute_spl \<lparr>admin_user_ids = [str ''U1''], admin_channel_ids = [],
       spl_query_enabled = True, approval_required = False\<rparr> (str '' U1'') None
     = (True, reason_granted)"
  using
    can_execute_spl_decision [of "\<lparr>admin_user_ids = [str ''U1''], admin_channel_ids = [],
       spl_query_enabled = False, approval_required = False\<rparr>" "str ''U1''" None]
    can_execute_spl_decision [of "\<lparr>admin_user_ids = [str ''U1''], admin_channel_ids = [],
       spl_query_enabled = True, approval_required = False\<rparr>" "str ''U2''" None]
    can_execute_spl_decision [of "\<lparr>admin_user_ids = [str ''U1''], admin_channel_ids = [],
       spl_query_enabled = True, approval_required = False\<rparr>" "str '' U1''" None]
  by (simp add: is_admin_def strip_def strip_quotes_def strip_by_def is_space_def is_quote_def
      str_def)

text \<open>
  C4. The channel never influences the decision: for every policy state and user, any
  two channel arguments (absent ones included) give the same answer, whatever the
  channel allowlist holds.
\<close>

theorem can_execute_spl_ignores_channel:
  "can_execute_spl am u c1 = can_execute_spl am u c2"
  by (simp add: can_execute_spl_def)

section \<open>Admin roster\<close>








section \<open>Audit trail\<close>

lemma slice_from_neg:
  "0 < limit \<Longrightarrow> slice_from xs (- limit) = drop (length xs - nat limit) xs"
  by (auto simp: slice_from_def Let_def max_def nat_diff_distrib' intro: arg_cong [where f = "\<lambda>n. drop n xs"])

lemma get_recent_logs_positive:
  "0 < limit \<Longrightarrow>
     get_recent_logs st limit = drop (length (logs st) - min (nat limit) (length (logs st))) (logs st)"
  by (simp add: get_recent_logs_def slice_from_neg min_def)

text \<open>
  C6 (the code at the failing input). With limit 0 the slice \<open>logs[-0:]\<close> is
  \<open>logs[0:]\<close>: \<open>get_recent_logs\<close> returns the whole trail of three entries, not the last
  \<open>min 0 3 = 0\<close> of them; with limit \<open>-1\<close> it returns all but the first. With limit 2
  it returns the last two, as for every positive limit. On every trail, limit 0 gives
  the whole trail.
\<close>

theorem get_recent_logs_zero_limit:
  "get_recent_logs \<lparr>logs = [e1, e2, e3]\<rparr> 0 = [e1, e2, e3] \<and>
   get_recent_logs \<lparr>logs = [e1, e2, e3]\<rparr> (- 1) = [e2, e3] \<and>
   get_recent_logs \<lparr>logs = [e1, e2, e3]\<rparr> 2 = [e2, e3] \<and>
   get_recent_logs st 0 = logs st"
  by (simp add: get_recent_logs_def slice_from_def)

lemma log_action_appends:
  "logs (fst (log_action dumps writable ts uid un cmd cid cn act res chg err (st, store))) =
     logs st @ [log_entry ts uid un cmd cid cn act res chg err]"
  by (simp add: log_action_def Let_def)

lemma export_json_keeps_logs: "snd (export_json writable f st) = st"
  by (simp add: export_json_def)

lemma export_txt_keeps_logs: "snd (export_txt writable f st) = st"
  by (simp add: export_txt_def split: sum.split)

text \<open>
  C2 (the code at the failing input). One entry is appended by \<open>log_action\<close>, as the
  denied branch of the export command does; \<open>export_csv\<close> then succeeds and leaves the
  entry with its \<open>changes\<close> field replaced by a string, the JSON text of the former
  value: the entry already in the sequence is no longer what was appended.
\<close>

theorem export_csv_mutates_entry:
  "export_csv dumps True (str ''logs_export.csv'')
     (fst (log_action dumps True ts (str ''U2'') (str ''bob'') (str ''!export-logs'')
             (str ''C1'') (str ''unknown'') (str ''Attempted to export logs'') (str ''DENIED'')
             None (Some (str ''User is not admin'')) (\<lparr>logs = []\<rparr>, [])))
   = (Some (str ''logs_export.csv''),
      \<lparr>logs = [JObj [(str ''timestamp'', JStr ts),
           (str ''user_id'', JStr (str ''U2'')),
           (str ''user_name'', JStr (str ''bob'')),
           (str ''command'', JStr (str ''!export-logs'')),
           (str ''channel_id'', JStr (str ''C1'')),
           (str ''channel_name'', JStr (str ''unknown'')),
           (str ''action'', JStr (str ''Attempted to export logs'')),
           (str ''result'', JStr (str ''DENIED'')),
           (str ''changes'', JStr (dumps (JObj []))),
           (str ''error'', JStr (str ''User is not admin''))]]\<rparr>) \<and>
   logs (snd (export_csv dumps True (str ''logs_export.csv'')
     (fst (log_action dumps True ts (str ''U2'') (str ''bob'') (str ''!export-logs'')
             (str ''C1'') (str ''unknown'') (str ''Attempted to export logs'') (str ''DENIED'')
             None (Some (str ''User is not admin'')) (\<lparr>logs = []\<rparr>, [])))))
   \<noteq> logs (fst (log_action dumps True ts (str ''U2'') (str ''bob'') (str ''!export-logs'')
             (str ''C1'') (str ''unknown'') (str ''Attempted to export logs'') (str ''DENIED'')
             None (Some (str ''User is not admin'')) (\<lparr>logs = []\<rparr>, [])))"
  by (simp add: export_csv_def log_action_def Let_def log_entry_def csv_fieldnames_def str_def)

section \<open>Result formatter\<close>

lemma result_lines_length:
  "length (result_lines f name sid results) = 3 + length results"
  by (simp add: result_lines_def del: upt_Suc)

lemma result_lines_nth:
  assumes "i < length results"
  shows "result_lines f name sid results ! (3 + i) =
           show_nat (Suc i) @ str ''. '' @ snippet f (results ! i)"
proof -
  have "result_lines f name sid results ! (3 + i) =
          map (\<lambda>(i, row). show_nat i @ str ''. '' @ snippet f row)
            (zip [1 ..< Suc (length results)] results) ! i"
    by (simp add: result_lines_def nth_append numeral_3_eq_3 del: upt_Suc)
  also have "\<dots> = show_nat (Suc i) @ str ''. '' @ snippet f (results ! i)"
    using assms by (simp add: nth_upt del: upt_Suc)
  finally show ?thesis .
qed

lemma show_keys_cases:
  "show_keys row =
     (if list_ex (\<lambda>k. k \<in> set (map fst row)) keys_priority
      then take 4 (filter (\<lambda>k. k \<in> set (map fst row)) keys_priority)
      else take 4 (map fst row))"
proof -
  have "take 4 (filter (\<lambda>k. k \<in> set (map fst row)) keys_priority) = [] \<longleftrightarrow>
          \<not> list_ex (\<lambda>k. k \<in> set (map fst row)) keys_priority"
    by (simp add: list_ex_iff filter_empty_conv)
  then show ?thesis
    by (simp add: show_keys_def Let_def)
qed

text \<open>
  C9 (as amended: the first priority field is \<open>_time\<close>). On an empty row sequence the
  message contains the sid and ends in the no-results text. On a non-empty sequence
  the message is the three header lines followed by one numbered line per row, joined
  by newlines; the line of a row shows at most four fields: the first four priority
  fields present in the row, in the order \<open>_time\<close>, host, source, sourcetype, user, src,
  dest, count, or, when the row has none of them, its own first four fields in its own
  order.
\<close>

theorem format_results_selection:
  "sublist sid (format_results f name sid []) \<and>
   suffix (str ''No results found.'') (format_results f name sid []) \<and>
   (results \<noteq> [] \<longrightarrow>
      format_results f name sid results = join [10] (result_lines f name sid results)) \<and>
   length (result_lines f name sid results) = 3 + length results \<and>
   (\<forall>i < length results.
      result_lines f name sid results ! (3 + i) =
        show_nat (Suc i) @ str ''. '' @
        join (str '', '')
          (map (\<lambda>k. k @ str ''='' @
                  fmt f (case map_of (results ! i) k of None \<Rightarrow> JNull | Some v \<Rightarrow> v))
             (show_keys (results ! i)))) \<and>
   length (show_keys row) \<le> 4 \<and>
   (list_ex (\<lambda>k. k \<in> set (map fst row)) keys_priority \<longrightarrow>
      show_keys row = take 4 (filter (\<lambda>k. k \<in> set (map fst row)) keys_priority)) \<and>
   (\<not> list_ex (\<lambda>k. k \<in> set (map fst row)) keys_priority \<longrightarrow>
      show_keys row = take 4 (map fst row))"
proof (intro conjI)
  have "format_results f name sid [] =
          ([9989] @ str '' *'' @ name @ str ''* ran successfully.'' @ [10] @
           [8226] @ str '' SID: `'') @ sid @
          (str ''`'' @ [10] @ [8226] @ str '' No results found.'')"
    by (simp add: format_results_def)
  then show "sublist sid (format_results f name sid [])"
    unfolding sublist_def by blast
  have "format_results f name sid [] =
          ([9989] @ str '' *'' @ name @ str ''* ran successfully.'' @ [10] @
           [8226] @ str '' SID: `'' @ sid @ str ''`'' @ [10] @ [8226] @ str '' '') @
          str ''No results found.''"
    by (simp add: format_results_def str_def)
  then show "suffix (str ''No results found.'') (format_results f name sid [])"
    unfolding suffix_def by blast
  show "results \<noteq> [] \<longrightarrow>
      format_results f name sid results = join [10] (result_lines f name sid results)"
    by (simp add: format_results_def)
  show "length (result_lines f name sid results) = 3 + length results"
    by (rule result_lines_length)
  show "\<forall>i < length results.
      result_lines f name sid results ! (3 + i) =
        show_nat (Suc i) @ str ''. '' @
        join (str '', '')
          (map (\<lambda>k. k @ str ''='' @
                  fmt f (case map_of (results ! i) k of None \<Rightarrow> JNull | Some v \<Rightarrow> v))
             (show_keys (results ! i)))"
    by (simp add: result_lines_nth snippet_def)
  show "length (show_keys row) \<le> 4"
    by (simp add: show_keys_cases)
  show "list_ex (\<lambda>k. k \<in> set (map fst row)) keys_priority \<longrightarrow>
      show_keys row = take 4 (filter (\<lambda>k. k \<in> set (map fst row)) keys_priority)"
    by (simp add: show_keys_cases)
  show "\<not> list_ex (\<lambda>k. k \<in> set (map fst row)) keys_priority \<longrightarrow>
      show_keys row = take 4 (map fst row)"
    by (simp add: show_keys_cases)
qed

theorem format_results_selection_witness:
  "show_keys [(str ''alpha'', JStr (str ''1'')), (str ''beta'', JStr (str ''2'')),
              (str ''gamma'', JStr (str ''3'')), (str ''delta'', JStr (str ''4'')),
              (str ''eps'', JStr (str ''5''))]
     = [str ''alpha'', str ''beta'', str ''gamma'', str ''delta''] \<and>
   show_keys [(str ''zeta'', JStr (str ''0'')), (str ''count'', JStr (str ''9'')),
              (str ''user'', JStr (str ''bob'')), (str ''dest'', JStr (str ''d'')),
              (str ''host'', JStr (str ''h1'')), (str ''_time'', JStr (str ''t0''))]
     = [str ''_time'', str ''host'', str ''user'', str ''dest''] \<and>
   result_lines (\<lambda>v. []) (str ''failed_logins'') (str ''abc123'')
     [[(str ''alpha'', JStr (str ''1''))],
      [(str ''zeta'', JStr (str ''0'')), (str ''count'', JStr (str ''9'')),
       (str ''user'', JStr (str ''bob'')), (str ''dest'', JStr (str ''d'')),
       (str ''host'', JStr (str ''h1'')), (str ''_time'', JStr (str ''t0''))]] ! 4
     = str ''2. _time=t0, host=h1, user=bob, dest=d'' \<and>
   format_results (\<lambda>v. []) (str ''failed_logins'') (str ''abc123'')
     [[(str ''alpha'', JStr (str ''1''))]]
     = [9989] @ str '' *failed_logins* results (top 1):'' @ [10] @
       [8226] @ str '' SID: `abc123`'' @ [10] @ [10] @ str ''1. alpha=1''"
proof -
  let ?np = "[(str ''alpha'', JStr (str ''1'')), (str ''beta'', JStr (str ''2'')),
              (str ''gamma'', JStr (str ''3'')), (str ''delta'', JStr (str ''4'')),
              (str ''eps'', JStr (str ''5''))]"
  let ?p = "[(str ''zeta'', JStr (str ''0'')), (str ''count'', JStr (str ''9'')),
              (str ''user'', JStr (str ''bob'')), (str ''dest'', JStr (str ''d'')),
              (str ''host'', JStr (str ''h1'')), (str ''_time'', JStr (str ''t0''))]"
  let ?one = "[(str ''alpha'', JStr (str ''1''))]"
  have np: "\<not> list_ex (\<lambda>k. k \<in> set (map fst ?np)) keys_priority"
    by (simp add: keys_priority_def str_def)
  have p: "list_ex (\<lambda>k. k \<in> set (map fst ?p)) keys_priority"
    by (simp add: keys_priority_def str_def)
  have "show_keys ?np = take 4 (map fst ?np)"
    using format_results_selection [where row = ?np] np by blast
  then have 1: "show_keys ?np = [str ''alpha'', str ''beta'', str ''gamma'', str ''delta'']"
    by simp
  have "show_keys ?p = take 4 (filter (\<lambda>k. k \<in> set (map fst ?p)) keys_priority)"
    using format_results_selection [where row = ?p] p by blast
  then have 2: "show_keys ?p = [str ''_time'', str ''host'', str ''user'', str ''dest'']"
    by (simp add: keys_priority_def str_def)
  have "\<forall>i < length [?one, ?p].
      result_lines (\<lambda>v. []) (str ''failed_logins'') (str ''abc123'') [?one, ?p] ! (3 + i) =
        show_nat (Suc i) @ str ''. '' @
        join (str '', '')
          (map (\<lambda>k. k @ str ''='' @
                  fmt (\<lambda>v. []) (case map_of ([?one, ?p] ! i) k of None \<Rightarrow> JNull | Some v \<Rightarrow> v))
             (show_keys ([?one, ?p] ! i)))"
    using format_results_selection
      [where results = "[?one, ?p]" and f = "\<lambda>v. []" and name = "str ''failed_logins''"
         and sid = "str ''abc123''"]
    by blast
  from this [rule_format, of 1]
  have "result_lines (\<lambda>v. []) (str ''failed_logins'') (str ''abc123'') [?one, ?p] ! (3 + 1) =
        show_nat (Suc 1) @ str ''. '' @
        join (str '', '')
          (map (\<lambda>k. k @ str ''='' @
                  fmt (\<lambda>v. []) (case map_of ([?one, ?p] ! 1) k of None \<Rightarrow> JNull | Some v \<Rightarrow> v))
             (show_keys ([?one, ?p] ! 1)))"
    by simp
  then have 3: "result_lines (\<lambda>v. []) (str ''failed_logins'') (str ''abc123'') [?one, ?p] ! 4
     = str ''2. _time=t0, host=h1, user=bob, dest=d''"
    using 2 by (simp add: fmt_def str_def)
  have "format_results (\<lambda>v. []) (str ''failed_logins'') (str ''abc123'') [?one]
          = join [10] (result_lines (\<lambda>v. []) (str ''failed_logins'') (str ''abc123'') [?one])"
    using format_results_selection [where results = "[?one]"] by blast
  then have 4: "format_results (\<lambda>v. []) (str ''failed_logins'') (str ''abc123'') [?one]
     = [9989] @ str '' *failed_logins* results (top 1):'' @ [10] @
       [8226] @ str '' SID: `abc123`'' @ [10] @ [10] @ str ''1. alpha=1''"
    by (simp add: result_lines_def snippet_def show_keys_def keys_priority_def fmt_def str_def)
  from 1 2 3 4 show ?thesis by blast
qed

text \<open>
  The specification names the first priority field \<open>time\<close>; the code looks for \<open>_time\<close>. A row
  with the fields \<open>x\<close> and \<open>time\<close> has no priority field for the code, which shows both
  fields, where the selection of the specification shows \<open>time\<close> alone. A row with \<open>x\<close> and
  \<open>_time\<close> is the other way round.
\<close>

theorem format_results_time_counterexample:
  "show_keys [(str ''x'', JInt 1), (str ''time'', JInt 2)] = [str ''x'', str ''time''] \<and>
   spec_show_keys [(str ''x'', JInt 1), (str ''time'', JInt 2)] = [str ''time''] \<and>
   show_keys [(str ''x'', JInt 1), (str ''_time'', JInt 2)] = [str ''_time''] \<and>
   spec_show_keys [(str ''x'', JInt 1), (str ''_time'', JInt 2)] = [str ''x'', str ''_time'']"
  by (simp add: show_keys_def spec_show_keys_def keys_priority_def spec_keys_priority_def str_def)

section \<open>Job creation\<close>

lemma has_key_iff: "has_key (JObj kvs) k \<longleftrightarrow> map_of kvs k \<noteq> None"
  by (simp add: has_key_def map_of_eq_None_iff)

lemma index0_JStr: "s \<noteq> [] \<Longrightarrow> index0 (JStr s) = Inr (JStr [hd s])"
  by (cases s) simp_all

lemma spec_nested_sid_truthy: "spec_nested_sid kvs = Some v \<Longrightarrow> truthy v"
  by (auto simp: spec_nested_sid_def split: option.splits json.splits list.splits if_splits)

lemma nested_sid_spec:
  assumes "map_of kvs (str ''entry'') = Some ent" "truthy ent"
  shows "case spec_nested_sid kvs of
           Some v \<Rightarrow> nested_sid (JObj kvs) = Inr v
         | None \<Rightarrow> (case nested_sid (JObj kvs) of Inl e \<Rightarrow> True | Inr v \<Rightarrow> \<not> truthy v)"
proof (cases ent)
  case (JArr xs)
  show ?thesis
  proof (cases xs)
    case Nil
    with JArr assms show ?thesis by simp
  next
    case (Cons x rest)
    show ?thesis
    proof (cases x)
      case (JObj entry)
      show ?thesis
      proof (cases "map_of entry (str ''content'')")
        case None
        with JObj Cons JArr assms show ?thesis
          by (simp add: spec_nested_sid_def nested_sid_def)
      next
        case (Some content)
        with JObj Cons JArr assms show ?thesis
          by (cases content)
            (simp_all add: spec_nested_sid_def nested_sid_def split: option.split)
      qed
    qed (use Cons JArr assms in \<open>simp_all add: spec_nested_sid_def nested_sid_def\<close>)
  qed
qed (use assms in \<open>simp_all add: spec_nested_sid_def nested_sid_def index0_JStr\<close>)

lemma spec_nested_sid_no_entry:
  "map_of kvs (str ''entry'') = None \<Longrightarrow> spec_nested_sid kvs = None"
  by (simp add: spec_nested_sid_def)

lemma spec_nested_sid_falsy_entry:
  "map_of kvs (str ''entry'') = Some ent \<Longrightarrow> \<not> truthy ent \<Longrightarrow> spec_nested_sid kvs = None"
  by (cases ent) (simp_all add: spec_nested_sid_def)

lemma job_sid_spec:
  assumes "status_code resp < 400"
  shows "case spec_sid (json_body resp) of
           Some v \<Rightarrow> job_sid label f resp = Inr v
         | None \<Rightarrow> isl (job_sid label f resp)"
proof (cases "json_body resp")
  case None
  with assms show ?thesis by (simp add: spec_sid_def job_sid_def resp_json_def)
next
  case (Some payload)
  show ?thesis
  proof (cases payload)
    case (JObj kvs)
    define sid0 where "sid0 = (case map_of kvs (str ''sid'') of None \<Rightarrow> JNull | Some v \<Rightarrow> v)"
    show ?thesis
    proof (cases "truthy sid0")
      case True
      with assms Some JObj show ?thesis
        by (auto simp: spec_sid_def job_sid_def resp_json_def sid0_def split: option.splits)
    next
      case False
      then have s: "spec_sid (json_body resp) = spec_nested_sid kvs"
        using Some JObj by (auto simp: spec_sid_def sid0_def split: option.splits)
      show ?thesis
      proof (cases "map_of kvs (str ''entry'')")
        case None
        with assms Some JObj False s show ?thesis
          by (simp add: job_sid_def resp_json_def sid0_def has_key_iff spec_nested_sid_no_entry)
      next
        case (Some ent)
        show ?thesis
        proof (cases "truthy ent")
          case True
          with nested_sid_spec [OF Some True] spec_nested_sid_truthy [of kvs] assms \<open>json_body resp = Some payload\<close> JObj False s Some
          show ?thesis
            by (auto simp: job_sid_def resp_json_def sid0_def has_key_iff split: option.splits sum.splits)
        next
          case F: False
          with assms \<open>json_body resp = Some payload\<close> JObj False s Some show ?thesis
            by (simp add: job_sid_def resp_json_def sid0_def has_key_iff spec_nested_sid_falsy_entry)
        qed
      qed
    qed
  qed (use assms Some in \<open>simp_all add: spec_sid_def job_sid_def resp_json_def\<close>)
qed

lemma job_sid_fails_iff:
  "isl (job_sid label f resp) \<longleftrightarrow> 400 \<le> status_code resp \<or> spec_sid (json_body resp) = None"
proof (cases "400 \<le> status_code resp")
  case True
  then show ?thesis by (simp add: job_sid_def)
next
  case False
  then have "status_code resp < 400" by simp
  from job_sid_spec [OF this, of label f] False show ?thesis
    by (auto split: option.splits)
qed

text \<open>
  C8 (as amended: the status test is \<open>status \<ge> 400\<close>, not "non-2xx"). Whatever response
  the backend gives to the job-creation request, \<open>dispatch_saved_search\<close> and
  \<open>run_spl_query\<close> raise exactly when the status is 400 or more or no job id is present
  in the decoded body in either shape (a top-level \<open>sid\<close>, or the \<open>sid\<close> in the content of
  the first entry). With a status of 400 or more the exception is a \<open>RuntimeError\<close> whose
  message ends with the body text as received; otherwise the sid found is returned.
\<close>

theorem dispatch_outcome:
  "(be (trace w) (post_job c (JStr (str ''| savedsearch \"'' @ name @ str ''\"'')) e l) = Inr resp \<longrightarrow>
      (isl (fst (dispatch_saved_search be f c name e l w)) \<longleftrightarrow>
         400 \<le> status_code resp \<or> spec_sid (json_body resp) = None) \<and>
      (400 \<le> status_code resp \<longrightarrow>
         fst (dispatch_saved_search be f c name e l w) =
           Inl (RuntimeError (str ''Splunk job create failed'' @ str '' ('' @
                  show_int (status_code resp) @ str ''): '' @ resp_text resp))) \<and>
      (\<forall>v. status_code resp < 400 \<and> spec_sid (json_body resp) = Some v \<longrightarrow>
         fst (dispatch_saved_search be f c name e l w) = Inr v)) \<and>
   (be (trace w) (post_job c (JStr spl) e l) = Inr resp \<longrightarrow>
      (isl (fst (run_spl_query be f c spl e l w)) \<longleftrightarrow>
         400 \<le> status_code resp \<or> spec_sid (json_body resp) = None) \<and>
      (400 \<le> status_code resp \<longrightarrow>
         fst (run_spl_query be f c spl e l w) =
           Inl (RuntimeError (str ''Splunk query failed'' @ str '' ('' @
                  show_int (status_code resp) @ str ''): '' @ resp_text resp))) \<and>
      (\<forall>v. status_code resp < 400 \<and> spec_sid (json_body resp) = Some v \<longrightarrow>
         fst (run_spl_query be f c spl e l w) = Inr v))"
proof (intro conjI impI allI)
  assume a: "be (trace w) (post_job c (JStr (str ''| savedsearch \"'' @ name @ str ''\"'')) e l) = Inr resp"
  then have d: "fst (dispatch_saved_search be f c name e l w) =
                  job_sid (str ''Splunk job create failed'') f resp"
    by (simp add: dispatch_saved_search_def http_def Let_def)
  show "isl (fst (dispatch_saved_search be f c name e l w)) \<longleftrightarrow>
         400 \<le> status_code resp \<or> spec_sid (json_body resp) = None"
    by (simp only: d job_sid_fails_iff)
  show "fst (dispatch_saved_search be f c name e l w) =
           Inl (RuntimeError (str ''Splunk job create failed'' @ str '' ('' @
                  show_int (status_code resp) @ str ''): '' @ resp_text resp))"
    if "400 \<le> status_code resp"
    using that by (simp only: d) (simp add: job_sid_def)
  show "fst (dispatch_saved_search be f c name e l w) = Inr v"
    if "status_code resp < 400 \<and> spec_sid (json_body resp) = Some v" for v
    using that job_sid_spec [of resp "str ''Splunk job create failed''" f]
    by (simp only: d) simp
next
  assume a: "be (trace w) (post_job c (JStr spl) e l) = Inr resp"
  then have d: "fst (run_spl_query be f c spl e l w) = job_sid (str ''Splunk query failed'') f resp"
    by (simp add: run_spl_query_def http_def Let_def)
  show "isl (fst (run_spl_query be f c spl e l w)) \<longleftrightarrow>
         400 \<le> status_code resp \<or> spec_sid (json_body resp) = None"
    by (simp only: d job_sid_fails_iff)
  show "fst (run_spl_query be f c spl e l w) =
           Inl (RuntimeError (str ''Splunk query failed'' @ str '' ('' @
                  show_int (status_code resp) @ str ''): '' @ resp_text resp))"
    if "400 \<le> status_code resp"
    using that by (simp only: d) (simp add: job_sid_def)
  show "fst (run_spl_query be f c spl e l w) = Inr v"
    if "status_code resp < 400 \<and> spec_sid (json_body resp) = Some v" for v
    using that job_sid_spec [of resp "str ''Splunk query failed''" f]
    by (simp only: d) simp
qed

theorem dispatch_outcome_witness:
  "fst (dispatch_saved_search
          (\<lambda>tr req. Inr \<lparr>status_code = 503, resp_text = str ''Service Unavailable'',
                            json_body = None, elapsed = 0\<rparr>)
          (\<lambda>v. [])
          \<lparr>base_url = str ''https://splunk:8089'', token = str ''Splunk t'',
             verify_tls = True, timeout = 20\<rparr>
          (str ''failed_logins'') (str ''-2h'') (str ''now'') \<lparr>now = 0, trace = []\<rparr>)
     = Inl (RuntimeError (str ''Splunk job create failed (503): Service Unavailable'')) \<and>
   fst (run_spl_query
          (\<lambda>tr req. Inr \<lparr>status_code = 201, resp_text = [],
                            json_body = Some (JObj [(str ''entry'',
                              JArr [JObj [(str ''content'',
                                JObj [(str ''sid'', JStr (str ''abc123''))])]])]),
                            elapsed = 0\<rparr>)
          (\<lambda>v. [])
          \<lparr>base_url = str ''https://splunk:8089'', token = str ''Splunk t'',
             verify_tls = True, timeout = 20\<rparr>
          (str ''index=_internal | head 5'') (str ''-24h'') (str ''now'') \<lparr>now = 0, trace = []\<rparr>)
     = Inr (JStr (str ''abc123'')) \<and>
   isl (fst (run_spl_query
          (\<lambda>tr req. Inr \<lparr>status_code = 200, resp_text = str ''{}'',
                            json_body = Some (JObj []), elapsed = 0\<rparr>)
          (\<lambda>v. [])
          \<lparr>base_url = str ''https://splunk:8089'', token = str ''Splunk t'',
             verify_tls = True, timeout = 20\<rparr>
          (str ''index=_internal | head 5'') (str ''-24h'') (str ''now'') \<lparr>now = 0, trace = []\<rparr>))"
  using
    dispatch_outcome
      [where be = "\<lambda>tr req. Inr \<lparr>status_code = 503, resp_text = str ''Service Unavailable'',
                            json_body = None, elapsed = 0\<rparr>"
         and resp = "\<lparr>status_code = 503, resp_text = str ''Service Unavailable'',
                            json_body = None, elapsed = 0\<rparr>"
         and f = "\<lambda>v. []"
         and c = "\<lparr>base_url = str ''https://splunk:8089'', token = str ''Splunk t'',
             verify_tls = True, timeout = 20\<rparr>"
         and name = "str ''failed_logins''" and e = "str ''-2h''" and l = "str ''now''"
         and w = "\<lparr>now = 0, trace = []\<rparr>"]
    dispatch_outcome
      [where be = "\<lambda>tr req. Inr \<lparr>status_code = 201, resp_text = [],
                            json_body = Some (JObj [(str ''entry'',
                              JArr [JObj [(str ''content'',
                                JObj [(str ''sid'', JStr (str ''abc123''))])]])]),
                            elapsed = 0\<rparr>"
         and resp = "\<lparr>status_code = 201, resp_text = [],
                            json_body = Some (JObj [(str ''entry'',
                              JArr [JObj [(str ''content'',
                                JObj [(str ''sid'', JStr (str ''abc123''))])]])]),
                            elapsed = 0\<rparr>"
         and f = "\<lambda>v. []"
         and c = "\<lparr>base_url = str ''https://splunk:8089'', token = str ''Splunk t'',
             verify_tls = True, timeout = 20\<rparr>"
         and spl = "str ''index=_internal | head 5''" and e = "str ''-24h''" and l = "str ''now''"
         and w = "\<lparr>now = 0, trace = []\<rparr>"]
    dispatch_outcome
      [where be = "\<lambda>tr req. Inr \<lparr>status_code = 200, resp_text = str ''{}'',
                            json_body = Some (JObj []), elapsed = 0\<rparr>"
         and resp = "\<lparr>status_code = 200, resp_text = str ''{}'',
                            json_body = Some (JObj []), elapsed = 0\<rparr>"
         and f = "\<lambda>v. []"
         and c = "\<lparr>base_url = str ''https://splunk:8089'', token = str ''Splunk t'',
             verify_tls = True, timeout = 20\<rparr>"
         and spl = "str ''index=_internal | head 5''" and e = "str ''-24h''" and l = "str ''now''"
         and w = "\<lparr>now = 0, trace = []\<rparr>"]
  by (simp add: spec_sid_def spec_nested_sid_def show_int_def str_def)

text \<open>
  The statement of the specification fails for a status that is neither 2xx nor an error
  for the code:
  a 302 response whose body carries a sid is accepted, and the sid is returned.
\<close>

theorem dispatch_non_2xx_counterexample:
  "\<not> (200 \<le> (302::int) \<and> (302::int) < 300) \<and>
   fst (dispatch_saved_search
          (\<lambda>tr req. Inr \<lparr>status_code = 302, resp_text = [],
                            json_body = Some (JObj [(str ''sid'', JStr (str ''abc123''))]),
                            elapsed = 0\<rparr>)
          (\<lambda>v. [])
          \<lparr>base_url = str ''https://splunk:8089'', token = str ''Splunk t'',
             verify_tls = True, timeout = 20\<rparr>
          (str ''failed_logins'') (str ''-2h'') (str ''now'') \<lparr>now = 0, trace = []\<rparr>)
     = Inr (JStr (str ''abc123'')) \<and>
   fst (run_spl_query
          (\<lambda>tr req. Inr \<lparr>status_code = 302, resp_text = [],
                            json_body = Some (JObj [(str ''sid'', JStr (str ''abc123''))]),
                            elapsed = 0\<rparr>)
          (\<lambda>v. [])
          \<lparr>base_url = str ''https://splunk:8089'', token = str ''Splunk t'',
             verify_tls = True, timeout = 20\<rparr>
          (str ''index=_internal | head 5'') (str ''-24h'') (str ''now'') \<lparr>now = 0, trace = []\<rparr>)
     = Inr (JStr (str ''abc123''))"
  by (simp add: dispatch_saved_search_def run_spl_query_def http_def Let_def job_sid_def
      resp_json_def str_def)

section \<open>Waiting for a job\<close>











section \<open>The raw-query command\<close>

text \<open>
  What the denied branch does, for every caller that is not an admin: no request is
  sent and the clock is not read (\<open>net\<close> is unchanged), the reason is sent back, one
  \<open>DENIED_SPL_QUERY\<close> line with the first 50 characters of the query goes to the
  operational logger, and the \<open>StructuredLogger\<close> is left as it was.
\<close>

lemma handle_splunk_query_denied:
  assumes "\<not> is_admin (admin b) (get_or_empty (msg_user message))"
  shows "\<exists>b'. handle_splunk_query be f g isof limit c message b = Some b' \<and>
           net b' = net b \<and> trail b' = trail b \<and> admin b' = admin b \<and>
           said b' = said b @ [snd (can_execute_spl (admin b) (get_or_empty (msg_user message))
                                      (Some (get_or_empty (msg_channel message))))] \<and>
           logger_lines b' = logger_lines b @
             [audit_log (isof (now (net b))) (str ''DENIED_SPL_QUERY'')
                (get_or_empty (msg_user message))
                (JObj [(str ''reason'',
                        JStr (snd (can_execute_spl (admin b) (get_or_empty (msg_user message))
                                     (Some (get_or_empty (msg_channel message)))))),
                       (str ''channel'', JStr (get_or_empty (msg_channel message))),
                       (str ''query_preview'',
                        JStr (take 50 (strip (remove_all (str ''!splunk-query'')
                                                (get_or_empty (msg_text message))))))])]"
proof -
  have "\<not> fst (can_execute_spl (admin b) (get_or_empty (msg_user message))
                  (Some (get_or_empty (msg_channel message))))"
    using assms by (simp add: can_execute_spl_def)
  then show ?thesis
    by (simp add: handle_splunk_query_def Let_def log_event_def say_def)
qed

text \<open>
  C1 (the code at the failing input). Roster \<open>[U1]\<close>, feature enabled, empty audit
  trail; user \<open>U2\<close> sends a raw query of 72 characters in channel \<open>C1\<close>. The request is
  denied and nothing is sent to the backend, but the audit trail is still empty
  afterwards: no entry with result \<open>DENIED\<close> has been recorded. The only record is the
  line of the operational logger, with the query cut to 50 characters.
\<close>

theorem handle_splunk_query_denied_trail_empty:
  "handle_splunk_query be f g isof limit c
     \<lparr>msg_user = Some (str ''U2''), msg_channel = Some (str ''C1''),
      msg_text = Some (str ''!splunk-query index=_internal | stats count by sourcetype, host, source | sort - count'')\<rparr>
     \<lparr>admin = \<lparr>admin_user_ids = [str ''U1''], admin_channel_ids = [],
                spl_query_enabled = True, approval_required = False\<rparr>,
      trail = \<lparr>logs = []\<rparr>, logger_lines = [], said = [],
      net = \<lparr>now = 0, trace = []\<rparr>\<rparr>
   = Some
     \<lparr>admin = \<lparr>admin_user_ids = [str ''U1''], admin_channel_ids = [],
                spl_query_enabled = True, approval_required = False\<rparr>,
      trail = \<lparr>logs = []\<rparr>,
      logger_lines =
        [JObj [(str ''timestamp'', JStr (isof 0)),
               (str ''event_type'', JStr (str ''DENIED_SPL_QUERY'')),
               (str ''user_id'', JStr (str ''U2'')),
               (str ''details'',
                JObj [(str ''reason'', JStr reason_restricted),
                      (str ''channel'', JStr (str ''C1'')),
                      (str ''query_preview'',
                       JStr (str ''index=_internal | stats count by sourcetype, host,''))])]],
      said = [reason_restricted],
      net = \<lparr>now = 0, trace = []\<rparr>\<rparr>"
proof -
  have a: "\<not> is_admin \<lparr>admin_user_ids = [str ''U1''], admin_channel_ids = [],
                spl_query_enabled = True, approval_required = False\<rparr> (str ''U2'')"
    by (simp add: is_admin_def strip_def strip_quotes_def strip_by_def is_space_def is_quote_def
        str_def)
  have t: "take 50 (strip (remove_all (str ''!splunk-query'')
             (str ''!splunk-query index=_internal | stats count by sourcetype, host, source | sort - count'')))
           = str ''index=_internal | stats count by sourcetype, host,''"
    by (simp add: str_def strip_def strip_by_def is_space_def)
  show ?thesis
    using a t
    by (simp add: handle_splunk_query_def Let_def can_execute_spl_def get_or_empty_def
        log_event_def say_def audit_log_def)
qed

section \<open>Loading the audit trail\<close>







end
